theory Spec2Isabelle
  imports Main
begin

section \<open>JavaScript string operations used by the server\<close>

text \<open>
  Strings are lists of 8-bit characters, read as the code units U+0000 .. U+00FF of a
  JavaScript string. \<open>trim\<close> removes the white space and line terminators of that
  range at both ends. \<open>toUpperCase\<close> is only ever compared with the ASCII literals
  \<open>MILD\<close>, \<open>SERIOUS\<close> and \<open>NONE\<close>, so it is modelled on the ASCII letters and
  leaves every other character as it is (no other character of the range is mapped
  to an ASCII letter of these literals).
\<close>

definition isWhiteSpace :: "char \<Rightarrow> bool" where
  "isWhiteSpace c \<longleftrightarrow>
     c \<in> set [CHR 0x09, CHR 0x0A, CHR 0x0B, CHR 0x0C, CHR 0x0D, CHR 0x20, CHR 0xA0]"

definition trim :: "string \<Rightarrow> string" where
  "trim s = rev (dropWhile isWhiteSpace (rev (dropWhile isWhiteSpace s)))"

definition upperChar :: "char \<Rightarrow> char" where
  "upperChar c =
     (case map_of (zip ''abcdefghijklmnopqrstuvwxyz'' ''ABCDEFGHIJKLMNOPQRSTUVWXYZ'') c of
        Some u \<Rightarrow> u
      | None \<Rightarrow> c)"

definition toUpperCase :: "string \<Rightarrow> string" where
  "toUpperCase s = map upperChar s"

fun startsWith :: "string \<Rightarrow> string \<Rightarrow> bool" where
  "startsWith s [] = True"
| "startsWith [] (p # ps) = False"
| "startsWith (c # cs) (p # ps) = (c = p \<and> startsWith cs ps)"

text \<open>\<open>s.substring(n)\<close> with \<open>n\<close> a length: the rest of the string from index \<open>n\<close>.\<close>

definition substring :: "string \<Rightarrow> nat \<Rightarrow> string" where
  "substring s n = drop n s"

fun includesStr :: "string \<Rightarrow> string \<Rightarrow> bool" where
  "includesStr [] sub = (sub = [])"
| "includesStr (c # cs) sub = (startsWith (c # cs) sub \<or> includesStr cs sub)"

text \<open>
  \<open>s.split(sep)\<close>: the pieces between the successive leftmost occurrences of a
  separator; an empty separator splits into the single code units.
\<close>

function splitAcc :: "string \<Rightarrow> string \<Rightarrow> string \<Rightarrow> string list" where
  "splitAcc sep acc [] = [rev acc]"
| "splitAcc sep acc (c # cs) =
     (if sep \<noteq> [] \<and> startsWith (c # cs) sep
      then rev acc # splitAcc sep [] (drop (length sep) (c # cs))
      else splitAcc sep (c # acc) cs)"
  by pat_completeness auto
termination
  by (relation "measure (\<lambda>(sep, acc, s). length s)") (auto simp: neq_Nil_conv)

definition split :: "string \<Rightarrow> string \<Rightarrow> string list" where
  "split s sep = (if sep = [] then map (\<lambda>c. [c]) s else splitAcc sep [] s)"

fun join :: "string list \<Rightarrow> string \<Rightarrow> string" where
  "join [] sep = []"
| "join [x] sep = x"
| "join (x # y # ys) sep = x @ sep @ join (y # ys) sep"

text \<open>The truthiness of a string: only the empty string is falsy.\<close>

definition truthy :: "string \<Rightarrow> bool" where
  "truthy s \<longleftrightarrow> s \<noteq> []"

section \<open>The four-line reply parser shared by the two conclusion endpoints\<close>

text \<open>
  \<open>result\<close> starts as the empty object; each field is absent (\<open>None\<close>) until a
  line assigns it. A later line with the same label overwrites an earlier one.
\<close>

record parsed =
  p_conclusion :: "string option"
  p_explanation :: "string option"
  p_selfCareTips :: "string list option"
  p_doctorSuggestion :: "string option"

definition emptyParsed :: parsed where
  "emptyParsed = \<lparr>p_conclusion = None, p_explanation = None,
                   p_selfCareTips = None, p_doctorSuggestion = None\<rparr>"

definition parseLine :: "parsed \<Rightarrow> string \<Rightarrow> parsed" where
  "parseLine result line =
     (if startsWith line ''CONCLUSION:'' then
        (let v = toUpperCase (trim (substring line (length ''CONCLUSION:'')))
         in if v = ''MILD'' \<or> v = ''SERIOUS'' then result\<lparr>p_conclusion := Some v\<rparr> else result)
      else if startsWith line ''EXPLANATION:'' then
        result\<lparr>p_explanation := Some (trim (substring line (length ''EXPLANATION:'')))\<rparr>
      else if startsWith line ''SELF_CARE_TIPS:'' then
        (let tipsString = trim (substring line (length ''SELF_CARE_TIPS:''))
         in if toUpperCase tipsString \<noteq> ''NONE'' \<and> truthy tipsString
            then result\<lparr>p_selfCareTips :=
                   Some (filter truthy (map trim (split tipsString ''* '')))\<rparr>
            else result)
      else if startsWith line ''DOCTOR_SUGGESTION:'' then
        (let suggestion = trim (substring line (length ''DOCTOR_SUGGESTION:''))
         in if toUpperCase suggestion \<noteq> ''NONE'' \<and> truthy suggestion
            then result\<lparr>p_doctorSuggestion := Some suggestion\<rparr>
            else result)
      else result)"

definition parseLines :: "string \<Rightarrow> parsed" where
  "parseLines responseText = foldl parseLine emptyParsed (split (trim responseText) [CHR 0x0A])"

record triage =
  conclusion :: string
  explanation :: string
  selfCareTips :: "string list"
  doctorSuggestion :: string

text \<open>
  The check \<open>!result.conclusion || !result.explanation\<close> and the object passed to
  \<open>res.json\<close>: absent tips become the empty list, an absent suggestion the empty
  string. \<open>None\<close> is the unparsable reply (the handler throws).
\<close>

definition buildTriage :: "parsed \<Rightarrow> triage option" where
  "buildTriage result =
     (case (p_conclusion result, p_explanation result) of
        (Some c, Some e) \<Rightarrow>
          (if truthy c \<and> truthy e
           then Some \<lparr>conclusion = c, explanation = e,
                      selfCareTips = (case p_selfCareTips result of Some ts \<Rightarrow> ts | None \<Rightarrow> []),
                      doctorSuggestion =
                        (case p_doctorSuggestion result of
                           Some d \<Rightarrow> (if truthy d then d else [])
                         | None \<Rightarrow> [])\<rparr>
           else None)
      | _ \<Rightarrow> None)"

section \<open>Errors, responses and the model\<close>

text \<open>
  A thrown value as \<open>handleAIError\<close> reads it: \<open>error.status\<close>,
  \<open>error.error.code\<close> and \<open>error.message\<close> (the empty string when absent: both
  are falsy).
\<close>

record js_error =
  e_status :: "nat option"
  e_code :: "nat option"
  e_message :: string

definition newError :: "string \<Rightarrow> js_error" where
  "newError m = \<lparr>e_status = None, e_code = None, e_message = m\<rparr>"

datatype response =
    Json_analysisId string
  | Json_triage triage
  | Json_chat string
  | Status nat string

definition handleAIError :: "js_error \<Rightarrow> response" where
  "handleAIError error =
     (let isRateLimit =
            (e_status error = Some 429 \<or> e_code error = Some 429 \<or>
             (truthy (e_message error) \<and>
              (includesStr (e_message error) ''429'' \<or> includesStr (e_message error) ''quota'')))
      in if isRateLimit
         then Status 429 ''AI Service Busy: Rate limit reached. Please wait a moment and try again.''
         else Status 500 (if truthy (e_message error) then e_message error
                          else ''Failed to process AI request.''))"

text \<open>
  A call of the remote model either rejects with an error or resolves to a response
  whose \<open>text\<close> is a string or undefined. The model is an input of every handler:
  a function from the request sent to the outcome of that call.
\<close>

datatype ai_reply = Rejects js_error | Responds "string option"

datatype ai_request = ImageRequest string string string | PromptRequest string

text \<open>\<open>!text\<close>: undefined and the empty string are falsy.\<close>

fun textOf :: "string option \<Rightarrow> string option" where
  "textOf None = None"
| "textOf (Some t) = (if truthy t then Some t else None)"

section \<open>Prompts\<close>

definition singleImagePrompt :: string where
  "singleImagePrompt = ''Analyze this image of a skin condition. Describe what you see in objective, clinical terms. Focus on color, texture, shape, and visible features. Do not diagnose or offer advice. Simply describe the visual information.''"

text \<open>
  \<open>mcqAnswers\<close> is an object or absent; its entries are kept in insertion order, as
  \<open>Object.entries\<close> lists them.
\<close>

definition additionalInfo :: "(string \<times> string) list option \<Rightarrow> string" where
  "additionalInfo mcqAnswers =
     (case mcqAnswers of
        None \<Rightarrow> ''The user did not provide any additional context.''
      | Some entries \<Rightarrow>
          (if length entries > 0
           then ''The user provided these answers:\<newline>'' @
                join (map (\<lambda>(q, a). ''- '' @ q @ '': '' @ a) entries) [CHR 0x0A]
           else ''The user did not provide any additional context.''))"

text \<open>The prompt of \<open>/api/ai/get-skin-conclusion\<close>.\<close>

definition analysisPrompt :: "string \<Rightarrow> string \<Rightarrow> string \<Rightarrow> string" where
  "analysisPrompt language imageDescription info =
     ''You are an AI health assistant providing a preliminary analysis. Your response MUST be ONLY four lines in the '' @ [CHR 0x27] @ language @ [CHR 0x27] @ '' language, using these exact labels:\<newline>CONCLUSION: [MILD or SERIOUS]\<newline>EXPLANATION: [Your analysis in one paragraph, based on the description and user answers.]\<newline>SELF_CARE_TIPS: [List of 2-3 simple, safe self-care tips, each starting with '* '. If SERIOUS, write NONE.]\<newline>DOCTOR_SUGGESTION: [The type of specialist to see (e.g., 'Dermatologist'). If MILD, write NONE.]\<newline>\<newline>**Provided Information:**\<newline>1. **Image Description:**\<newline>'' @ imageDescription @ ''\<newline>2. **User's Answers:** '' @ info"

text \<open>The prompt of the second step of \<open>/api/ai/analyze-skin\<close>.\<close>

definition analysisPromptCombined :: "string \<Rightarrow> string \<Rightarrow> string \<Rightarrow> string" where
  "analysisPromptCombined language descriptionText info =
     ''You are an AI health assistant. Your response MUST be ONLY four lines in the '' @ [CHR 0x27] @ language @ [CHR 0x27] @ '' language, using these exact labels:\<newline>CONCLUSION: [MILD or SERIOUS]\<newline>EXPLANATION: [Your analysis in one paragraph.]\<newline>SELF_CARE_TIPS: [List of 2-3 simple tips, each starting with '* '. If SERIOUS, write NONE.]\<newline>DOCTOR_SUGGESTION: [Specialist to see. If MILD, write NONE.]\<newline>\<newline>**Provided Information:**\<newline>1. **Image Description:**\<newline>'' @ descriptionText @ ''\<newline>2. **User's Answers:** '' @ info"

section \<open>The analysis cache and its timers\<close>

text \<open>
  \<open>analysisCache\<close> is the global \<open>Map\<close>. The pending timeouts of the process are
  part of the state: a handle maps to the time it is due and the \<open>analysisId\<close> its
  callback deletes. \<open>clock\<close> is the time in milliseconds.
\<close>

record cache_entry =
  description :: string
  cleanupTimer :: nat

record server =
  analysisCache :: "string \<rightharpoonup> cache_entry"
  timers :: "nat \<rightharpoonup> nat \<times> string"
  nextTimer :: nat
  clock :: nat

definition setTimeout :: "string \<Rightarrow> nat \<Rightarrow> server \<Rightarrow> nat \<times> server" where
  "setTimeout analysisId delay s =
     (nextTimer s,
      s\<lparr>timers := (timers s)(nextTimer s \<mapsto> (clock s + delay, analysisId)),
        nextTimer := Suc (nextTimer s)\<rparr>)"

definition clearTimeout :: "nat \<Rightarrow> server \<Rightarrow> server" where
  "clearTimeout h s = s\<lparr>timers := (timers s)(h := None)\<rparr>"

text \<open>The callback of a timeout that is due: it deletes the cache entry of its id.\<close>

definition runTimer :: "nat \<Rightarrow> server \<Rightarrow> server" where
  "runTimer h s =
     (case timers s h of
        None \<Rightarrow> s
      | Some (due, analysisId) \<Rightarrow>
          (if due \<le> clock s
           then s\<lparr>timers := (timers s)(h := None),
                  analysisCache := (analysisCache s)(analysisId := None)\<rparr>
           else s))"

text \<open>Time passes: the clock advances and every timeout then due runs.\<close>

definition elapse :: "nat \<Rightarrow> server \<Rightarrow> server" where
  "elapse d s = fold runTimer [0..<nextTimer s] (s\<lparr>clock := clock s + d\<rparr>)"

definition expiry :: nat where
  "expiry = 15 * 60 * 1000"

section \<open>The skin analysis endpoints\<close>

record describe_req =
  d_base64ImageData :: string
  d_mimeType :: string

text \<open>
  \<open>/api/ai/describe-skin-image\<close>. \<open>uuid\<close> is the value of
  \<open>crypto.randomUUID()\<close>. The state is only touched after the model has answered.
\<close>

definition describeSkinImage ::
  "(ai_request \<Rightarrow> ai_reply) \<Rightarrow> string \<Rightarrow> describe_req \<Rightarrow> server \<Rightarrow> response \<times> server" where
  "describeSkinImage ai uuid req s =
     (if \<not> truthy (d_base64ImageData req) \<or> \<not> truthy (d_mimeType req)
      then (Status 400 ''Invalid image data provided.'', s)
      else
        (case ai (ImageRequest (d_base64ImageData req) (d_mimeType req) singleImagePrompt) of
           Rejects e \<Rightarrow> (handleAIError e, s)
         | Responds t \<Rightarrow>
             (case textOf t of
                None \<Rightarrow> (handleAIError (newError ''The AI could not analyze the provided image.''), s)
              | Some descriptionText \<Rightarrow>
                  (let (cleanupTimer, s1) = setTimeout uuid expiry s
                   in (Json_analysisId uuid,
                       s1\<lparr>analysisCache := (analysisCache s1)(uuid \<mapsto>
                            \<lparr>description = descriptionText, cleanupTimer = cleanupTimer\<rparr>)\<rparr>)))))"

record conclusion_req =
  c_analysisId :: string
  c_mcqAnswers :: "(string \<times> string) list option"
  c_language :: string

text \<open>
  \<open>/api/ai/get-skin-conclusion\<close> runs in two parts around its \<open>await\<close>. Before the
  model call: the lookup, the 404 on a miss, \<open>clearTimeout\<close> and the prompt.
\<close>

definition conclusionLookup :: "conclusion_req \<Rightarrow> server \<Rightarrow> (response + string) \<times> server" where
  "conclusionLookup req s =
     (case analysisCache s (c_analysisId req) of
        None \<Rightarrow> (Inl (Status 404 ''Analysis session not found or expired. Please start over.''), s)
      | Some cached \<Rightarrow>
          (Inr (analysisPrompt (c_language req) (description cached)
                  (additionalInfo (c_mcqAnswers req))),
           clearTimeout (cleanupTimer cached) s))"

text \<open>After the model call: the parse, and the deletion of the entry on success only.\<close>

definition conclusionFinish :: "string \<Rightarrow> ai_reply \<Rightarrow> server \<Rightarrow> response \<times> server" where
  "conclusionFinish analysisId reply s =
     (case reply of
        Rejects e \<Rightarrow> (handleAIError e, s)
      | Responds t \<Rightarrow>
          (case textOf t of
             None \<Rightarrow>
               (handleAIError
                  (newError ''AI model returned an empty response during the final analysis.''), s)
           | Some responseText \<Rightarrow>
               (case buildTriage (parseLines responseText) of
                  None \<Rightarrow>
                    (handleAIError (newError ''Received an unparsable response from the AI.''), s)
                | Some r \<Rightarrow>
                    (Json_triage r, s\<lparr>analysisCache := (analysisCache s)(analysisId := None)\<rparr>))))"

text \<open>The whole request, with nothing else running during the model call.\<close>

definition getSkinConclusion ::
  "(ai_request \<Rightarrow> ai_reply) \<Rightarrow> conclusion_req \<Rightarrow> server \<Rightarrow> response \<times> server" where
  "getSkinConclusion ai req s =
     (case conclusionLookup req s of
        (Inl r, s') \<Rightarrow> (r, s')
      | (Inr prompt, s') \<Rightarrow> conclusionFinish (c_analysisId req) (ai (PromptRequest prompt)) s')"

record analyze_req =
  a_base64ImageData :: string
  a_mimeType :: string
  a_language :: string
  a_mcqAnswers :: "(string \<times> string) list option"

text \<open>\<open>/api/ai/analyze-skin\<close>: both steps in one request; it never touches the cache.\<close>

definition analyzeSkin :: "(ai_request \<Rightarrow> ai_reply) \<Rightarrow> analyze_req \<Rightarrow> response" where
  "analyzeSkin ai req =
     (if \<not> truthy (a_base64ImageData req) \<or> \<not> truthy (a_mimeType req)
      then Status 400 ''Invalid image data provided.''
      else
        (case ai (ImageRequest (a_base64ImageData req) (a_mimeType req) singleImagePrompt) of
           Rejects e \<Rightarrow> handleAIError e
         | Responds t \<Rightarrow>
             (case textOf t of
                None \<Rightarrow> handleAIError (newError ''The AI could not analyze the provided image.'')
              | Some descriptionText \<Rightarrow>
                  (case ai (PromptRequest (analysisPromptCombined (a_language req) descriptionText
                                             (additionalInfo (a_mcqAnswers req)))) of
                     Rejects e \<Rightarrow> handleAIError e
                   | Responds t2 \<Rightarrow>
                       (case textOf t2 of
                          None \<Rightarrow> handleAIError (newError ''AI model returned an empty response.'')
                        | Some responseText \<Rightarrow>
                            (case buildTriage (parseLines responseText) of
                               None \<Rightarrow> handleAIError (newError ''Received an unparsable AI response.'')
                             | Some r \<Rightarrow> Json_triage r))))))"

text \<open>What a response carries, read off for the statements below.\<close>

fun triageOf :: "response \<Rightarrow> triage option" where
  "triageOf (Json_triage r) = Some r"
| "triageOf _ = None"

fun statusOf :: "response \<Rightarrow> nat" where
  "statusOf (Status code msg) = code"
| "statusOf _ = 200"

text \<open>The result the parse of a reply leads to, if any: every other reply makes
  the handler throw.\<close>

definition replyTriage :: "ai_reply \<Rightarrow> triage option" where
  "replyTriage reply =
     (case reply of
        Rejects e \<Rightarrow> None
      | Responds t \<Rightarrow>
          (case textOf t of None \<Rightarrow> None | Some responseText \<Rightarrow> buildTriage (parseLines responseText)))"

text \<open>
  The online path of the client (\<open>handleSubmitAnalysis\<close>): \<open>startSkinAnalysis\<close>, then
  \<open>getSkinAnalysisConclusion\<close> with the \<open>analysisId\<close> it returned.
\<close>

definition onlineAnalysis ::
  "(ai_request \<Rightarrow> ai_reply) \<Rightarrow> string \<Rightarrow> analyze_req \<Rightarrow> server \<Rightarrow> response \<times> server" where
  "onlineAnalysis ai uuid req s =
     (case describeSkinImage ai uuid
             \<lparr>d_base64ImageData = a_base64ImageData req, d_mimeType = a_mimeType req\<rparr> s of
        (Json_analysisId analysisId, s1) \<Rightarrow>
          getSkinConclusion ai
            \<lparr>c_analysisId = analysisId, c_mcqAnswers = a_mcqAnswers req,
               c_language = a_language req\<rparr> s1
      | (r, s1) \<Rightarrow> (r, s1))"

subsection \<open>Runs of the server\<close>

text \<open>
  What happens to the cache over time is a sequence of events: a describe request
  answered, the first part of a conclusion request, its second part once the model has
  answered, and time passing.
\<close>

datatype event =
    DescribeEv "ai_request \<Rightarrow> ai_reply" string describe_req
  | LookupEv conclusion_req
  | FinishEv string ai_reply
  | ElapseEv nat

fun step :: "event \<Rightarrow> server \<Rightarrow> server" where
  "step (DescribeEv ai uuid req) s = snd (describeSkinImage ai uuid req s)"
| "step (LookupEv req) s = snd (conclusionLookup req s)"
| "step (FinishEv analysisId reply) s = snd (conclusionFinish analysisId reply s)"
| "step (ElapseEv d) s = elapse d s"

definition run :: "event list \<Rightarrow> server \<Rightarrow> server" where
  "run evs s = fold step evs s"

text \<open>An event that does not create a session under the given id.\<close>

fun createsNot :: "string \<Rightarrow> event \<Rightarrow> bool" where
  "createsNot analysisId (DescribeEv ai uuid req) = (uuid \<noteq> analysisId)"
| "createsNot analysisId _ = True"

text \<open>An event that is neither a creation under the id nor a conclusion of the id
  that succeeds.\<close>

fun leavesAlone :: "string \<Rightarrow> event \<Rightarrow> bool" where
  "leavesAlone analysisId (DescribeEv ai uuid req) = (uuid \<noteq> analysisId)"
| "leavesAlone analysisId (FinishEv aid reply) = (aid \<noteq> analysisId \<or> replyTriage reply = None)"
| "leavesAlone analysisId _ = True"

definition initialServer :: server where
  "initialServer = \<lparr>analysisCache = Map.empty, timers = Map.empty, nextTimer = 0, clock = 0\<rparr>"

section \<open>The chat endpoint\<close>

datatype role = User | Model

record history_msg =
  role :: role
  parts :: "string list"

record chat_session =
  s_language :: string
  history :: "history_msg list"

record chat_req =
  message :: string
  language :: string

text \<open>Step 1: a message is kept when some part has text that is not only white space.\<close>

definition hasText :: "history_msg \<Rightarrow> bool" where
  "hasText h = list_ex (\<lambda>p. truthy p \<and> length (trim p) > 0) (parts h)"

text \<open>Step 3: one \<open>shift()\<close> when the first message is not a user message.\<close>

definition dropLeadingModel :: "history_msg list \<Rightarrow> history_msg list" where
  "dropLeadingModel cleanHistory =
     (if length cleanHistory > 0 \<and> role (hd cleanHistory) \<noteq> User
      then tl cleanHistory else cleanHistory)"

text \<open>Step 4: the loop body, with \<open>prev\<close> the last element pushed so far.\<close>

definition alternateStep :: "history_msg list \<Rightarrow> history_msg \<Rightarrow> history_msg list" where
  "alternateStep sanitizedHistory current =
     (if role current = role (last sanitizedHistory)
      then butlast sanitizedHistory @ [current]
      else sanitizedHistory @ [current])"

definition alternate :: "history_msg list \<Rightarrow> history_msg list" where
  "alternate cleanHistory =
     (if length cleanHistory > 0
      then foldl alternateStep [hd cleanHistory] (tl cleanHistory)
      else [])"

text \<open>Step 5: one \<open>pop()\<close> when the last message is a user message.\<close>

definition dropTrailingUser :: "history_msg list \<Rightarrow> history_msg list" where
  "dropTrailingUser cleanHistory =
     (if length cleanHistory > 0 \<and> role (last cleanHistory) = User
      then butlast cleanHistory else cleanHistory)"

definition sanitizeHistory :: "history_msg list \<Rightarrow> history_msg list" where
  "sanitizeHistory storedHistory =
     dropTrailingUser (alternate (dropLeadingModel (filter hasText storedHistory)))"

text \<open>The session of a phone: reset when there is none or the language differs.\<close>

definition findSession ::
  "string \<Rightarrow> string \<Rightarrow> (string \<rightharpoonup> chat_session) \<Rightarrow> chat_session \<times> (string \<rightharpoonup> chat_session)" where
  "findSession phone lang db =
     (case db phone of
        None \<Rightarrow> (\<lparr>s_language = lang, history = []\<rparr>,
                 db(phone \<mapsto> \<lparr>s_language = lang, history = []\<rparr>))
      | Some session \<Rightarrow>
          (if s_language session \<noteq> lang
           then (\<lparr>s_language = lang, history = []\<rparr>,
                 db(phone \<mapsto> \<lparr>s_language = lang, history = []\<rparr>))
           else (session, db)))"

text \<open>
  \<open>/api/ai/chat\<close>. \<open>sendMessage\<close> is the outcome of the model call on the history
  handed to \<open>ai.chats.create\<close> and the message. The schema requires the text of a
  part, so saving a turn with an empty message is rejected: \<open>validationError\<close> is
  the error the store raises then. The body of a successful reply is derived from
  the reply text alone, which \<open>Json_chat\<close> carries.
\<close>

definition chat ::
  "(history_msg list \<Rightarrow> string \<Rightarrow> ai_reply) \<Rightarrow> js_error \<Rightarrow> string \<Rightarrow> chat_req \<Rightarrow>
   (string \<rightharpoonup> chat_session) \<Rightarrow> response \<times> (string \<rightharpoonup> chat_session)" where
  "chat sendMessage validationError phone req db =
     (let (session, db1) = findSession phone (language req) db;
          cleanHistory = sanitizeHistory (history session)
      in if \<not> truthy (message req) then (handleAIError validationError, db1)
         else
           (let session1 = session\<lparr>history := history session @
                                      [\<lparr>role = User, parts = [message req]\<rparr>]\<rparr>;
                db2 = db1(phone \<mapsto> session1)
            in case sendMessage cleanHistory (message req) of
                 Rejects e \<Rightarrow> (handleAIError e, db2)
               | Responds t \<Rightarrow>
                   (case textOf t of
                      None \<Rightarrow>
                        (handleAIError (newError ''Chat service returned an empty response.''),
                         db2(phone \<mapsto> session1\<lparr>history := butlast (history session1)\<rparr>))
                    | Some responseText \<Rightarrow>
                        (Json_chat responseText,
                         db2(phone \<mapsto> session1\<lparr>history := history session1 @
                                           [\<lparr>role = Model, parts = [responseText]\<rparr>]\<rparr>)))))"

text \<open>The stored history of a phone (empty when there is no session).\<close>

definition storedHistory :: "(string \<rightharpoonup> chat_session) \<Rightarrow> string \<Rightarrow> history_msg list" where
  "storedHistory db phone = (case db phone of None \<Rightarrow> [] | Some session \<Rightarrow> history session)"

text \<open>
  The three properties the model requires of the history it is given. The empty
  history, which the first request of a session sends, has all three.
\<close>

fun alternates :: "history_msg list \<Rightarrow> bool" where
  "alternates [] = True"
| "alternates [x] = True"
| "alternates (x # y # ys) = (role x \<noteq> role y \<and> alternates (y # ys))"

definition startsWithUser :: "history_msg list \<Rightarrow> bool" where
  "startsWithUser h = (h = [] \<or> role (hd h) = User)"

definition endsWithModel :: "history_msg list \<Rightarrow> bool" where
  "endsWithModel h = (h = [] \<or> role (last h) = Model)"

section \<open>The offline queue of the client\<close>

record payload =
  base64ImageData :: string
  mimeType :: string
  p_language :: string
  mcqAnswers :: "(string \<times> string) list"

record queued =
  req_id :: string
  req_payload :: payload
  req_timestamp :: nat

text \<open>
  The keys of \<open>localStorage\<close> the client writes; \<open>None\<close> is an absent key. The
  lists stand for their JSON text: \<open>JSON.parse\<close> gives back what
  \<open>JSON.stringify\<close> was given.
\<close>

record local_storage =
  analysisQueue :: "queued list option"
  analysisResults :: "triage list option"
  healthAppUser :: "string option"
  healthAppToken :: "string option"
  bookingHistoryCache :: "string option"

text \<open>\<open>JSON.parse(localStorage.getItem(KEY) || '[]')\<close>.\<close>

definition getQueue :: "local_storage \<Rightarrow> queued list" where
  "getQueue ls = (case analysisQueue ls of None \<Rightarrow> [] | Some q \<Rightarrow> q)"

definition getResults :: "local_storage \<Rightarrow> triage list" where
  "getResults ls = (case analysisResults ls of None \<Rightarrow> [] | Some r \<Rightarrow> r)"

text \<open>The decimal text of a number, as a template literal prints \<open>Date.now()\<close>.\<close>

definition digitChar :: "nat \<Rightarrow> char" where
  "digitChar d = ''0123456789'' ! d"

function showNat :: "nat \<Rightarrow> string" where
  "showNat n = (if n < 10 then [digitChar n] else showNat (n div 10) @ [digitChar (n mod 10)])"
  by pat_completeness auto
termination
  by (relation "measure (\<lambda>n. n)") auto

declare showNat.simps [simp del]

text \<open>
  \<open>queueAnalysisRequest\<close>. \<open>Date.now()\<close> is read twice, for the id and for the
  timestamp: \<open>idNow\<close> and \<open>tsNow\<close>.
\<close>

definition queueAnalysisRequest :: "nat \<Rightarrow> nat \<Rightarrow> payload \<Rightarrow> local_storage \<Rightarrow> local_storage" where
  "queueAnalysisRequest idNow tsNow p ls =
     (let queue = getQueue ls;
          newRequest = \<lparr>req_id = ''req_'' @ showNat idNow, req_payload = p, req_timestamp = tsNow\<rparr>
      in ls\<lparr>analysisQueue := Some (queue @ [newRequest])\<rparr>)"

text \<open>
  The loop of \<open>processAnalysisQueue\<close> runs over the array read at the start, while
  \<open>queue\<close> is replaced by a filtered copy after each success. \<open>apiFetch k p\<close> is the
  outcome of the \<open>k\<close>-th call of the pass, made with payload \<open>p\<close>: the message of
  the error thrown, or the result. Each call is awaited, and the other handlers of the
  page run during that time: \<open>meanwhile k\<close> is what they do to \<open>localStorage\<close> while
  the \<open>k\<close>-th call is awaited (another request queued, a logout, a result viewed).
  The loop never reads \<open>localStorage\<close>; its state is the storage as the others leave
  it, \<open>queue\<close>, \<open>results\<close> and the payloads sent so far.
\<close>

fun replayLoop ::
  "(nat \<Rightarrow> payload \<Rightarrow> string + triage) \<Rightarrow> (nat \<Rightarrow> local_storage \<Rightarrow> local_storage) \<Rightarrow>
   nat \<Rightarrow> queued list \<Rightarrow>
   local_storage \<times> queued list \<times> triage list \<times> payload list \<Rightarrow>
   local_storage \<times> queued list \<times> triage list \<times> payload list" where
  "replayLoop apiFetch meanwhile k [] st = st"
| "replayLoop apiFetch meanwhile k (request # rest) (ls, queue, results, sent) =
     (case apiFetch k (req_payload request) of
        Inr result \<Rightarrow>
          replayLoop apiFetch meanwhile (Suc k) rest
            (meanwhile k ls, filter (\<lambda>r. req_id r \<noteq> req_id request) queue,
             results @ [result], sent @ [req_payload request])
      | Inl error \<Rightarrow>
          replayLoop apiFetch meanwhile (Suc k) rest
            (meanwhile k ls, queue, results, sent @ [req_payload request]))"

text \<open>
  \<open>processAnalysisQueue\<close>: the queue and the results are read once at the start; after
  the loop both keys are overwritten, in the storage as it is by then, with the lists
  the loop has built. The value is the storage afterwards, the payloads sent to
  \<open>/api/ai/analyze-skin\<close> in order, and whether \<open>queueProcessed\<close> was dispatched.
\<close>

definition processAnalysisQueue ::
  "(nat \<Rightarrow> payload \<Rightarrow> string + triage) \<Rightarrow> (nat \<Rightarrow> local_storage \<Rightarrow> local_storage) \<Rightarrow>
   local_storage \<Rightarrow> local_storage \<times> payload list \<times> bool" where
  "processAnalysisQueue apiFetch meanwhile ls =
     (let queue = getQueue ls
      in if length queue = 0 then (ls, [], False)
         else
           (let results = getResults ls;
                (ls', queue', results', sent) =
                  replayLoop apiFetch meanwhile 0 queue (ls, queue, results, [])
            in (ls'\<lparr>analysisResults := Some results', analysisQueue := Some queue'\<rparr>,
                sent, True)))"

text \<open>
  The storage as the other handlers leave it over \<open>n\<close> awaited calls from call
  number \<open>k\<close>: what the final writes of a pass find.
\<close>

fun interleaved ::
  "(nat \<Rightarrow> local_storage \<Rightarrow> local_storage) \<Rightarrow> nat \<Rightarrow> nat \<Rightarrow> local_storage \<Rightarrow> local_storage" where
  "interleaved meanwhile k 0 ls = ls"
| "interleaved meanwhile k (Suc n) ls = interleaved meanwhile (Suc k) n (meanwhile k ls)"

text \<open>\<open>handleLogout\<close>, as far as \<open>localStorage\<close> goes.\<close>

definition handleLogout :: "local_storage \<Rightarrow> local_storage" where
  "handleLogout ls =
     ls\<lparr>healthAppUser := None, healthAppToken := None, bookingHistoryCache := None,
        analysisQueue := None, analysisResults := None\<rparr>"

text \<open>
  For the statements about a pass: the outcomes of the calls made for the entries of a
  queue, in order from call number \<open>k\<close>; the entries whose call failed; the results
  of the calls that succeeded.
\<close>

fun outcomes :: "(nat \<Rightarrow> payload \<Rightarrow> string + triage) \<Rightarrow> nat \<Rightarrow> queued list \<Rightarrow> (string + triage) list" where
  "outcomes apiFetch k [] = []"
| "outcomes apiFetch k (request # rest) =
     apiFetch k (req_payload request) # outcomes apiFetch (Suc k) rest"

definition failedEntries :: "queued list \<Rightarrow> (string + triage) list \<Rightarrow> queued list" where
  "failedEntries queue ocs = map fst (filter (\<lambda>(request, oc). isl oc) (zip queue ocs))"

definition succeededEntries :: "queued list \<Rightarrow> (string + triage) list \<Rightarrow> queued list" where
  "succeededEntries queue ocs = map fst (filter (\<lambda>(request, oc). \<not> isl oc) (zip queue ocs))"

definition successResults :: "(string + triage) list \<Rightarrow> triage list" where
  "successResults ocs = concat (map (\<lambda>oc. case oc of Inr r \<Rightarrow> [r] | Inl e \<Rightarrow> []) ocs)"

section \<open>Concrete scenarios\<close>

text \<open>The reply, the model, the session and the request of the phase-2 scenario.\<close>

definition scenarioReply :: string where
  "scenarioReply = ''CONCLUSION: MILD\<newline>EXPLANATION: ...\<newline>SELF_CARE_TIPS: * Rest\<newline>* Hydrate\<newline>DOCTOR_SUGGESTION: NONE''"

definition scenarioAi :: "ai_request \<Rightarrow> ai_reply" where
  "scenarioAi request =
     (case request of
        ImageRequest d m p \<Rightarrow> Responds (Some ''redness, no swelling'')
      | PromptRequest p \<Rightarrow> Responds (Some scenarioReply))"

definition scenarioServer :: server where
  "scenarioServer =
     snd (describeSkinImage scenarioAi ''a1''
            \<lparr>d_base64ImageData = ''aGk='', d_mimeType = ''image/png''\<rparr> initialServer)"

definition scenarioReq :: conclusion_req where
  "scenarioReq = \<lparr>c_analysisId = ''a1'', c_mcqAnswers = Some [], c_language = ''en''\<rparr>"

text \<open>A model that tells the two conclusion prompts apart, and one that does not.\<close>

definition pickyAi :: "ai_request \<Rightarrow> ai_reply" where
  "pickyAi request =
     (case request of
        ImageRequest d m p \<Rightarrow> Responds (Some ''red patch'')
      | PromptRequest p \<Rightarrow>
          (if startsWith p ''You are an AI health assistant.''
           then Responds (Some ''CONCLUSION: SERIOUS\<newline>EXPLANATION: see a doctor'')
           else Responds (Some ''CONCLUSION: MILD\<newline>EXPLANATION: harmless'')))"

definition constantAi :: "ai_request \<Rightarrow> ai_reply" where
  "constantAi request =
     (case request of
        ImageRequest d m p \<Rightarrow> Responds (Some ''red patch'')
      | PromptRequest p \<Rightarrow> Responds (Some ''CONCLUSION: MILD\<newline>EXPLANATION: harmless''))"

definition sampleReq :: analyze_req where
  "sampleReq = \<lparr>a_base64ImageData = ''aGk='', a_mimeType = ''image/png'', a_language = ''en'',
                 a_mcqAnswers = Some []\<rparr>"

text \<open>Chat turns with blank user messages.\<close>

definition blankTurnsHistory :: "history_msg list" where
  "blankTurnsHistory =
     [\<lparr>role = User, parts = ['' '']\<rparr>, \<lparr>role = Model, parts = [''a'']\<rparr>,
      \<lparr>role = User, parts = ['' '']\<rparr>, \<lparr>role = Model, parts = [''b'']\<rparr>]"

definition replyWith :: "string \<Rightarrow> history_msg list \<Rightarrow> string \<Rightarrow> ai_reply" where
  "replyWith t h m = Responds (Some t)"

definition blankTurnsDb :: "string \<rightharpoonup> chat_session" where
  "blankTurnsDb =
     snd (chat (replyWith ''b'') (newError ''validation'') ''900'' \<lparr>message = '' '', language = ''en''\<rparr>
       (snd (chat (replyWith ''a'') (newError ''validation'') ''900''
               \<lparr>message = '' '', language = ''en''\<rparr> Map.empty)))"

text \<open>A stored session of two turns; a model that replies without text; one that rejects.\<close>

definition greetedDb :: "string \<rightharpoonup> chat_session" where
  "greetedDb = [''900'' \<mapsto> \<lparr>s_language = ''en'',
       history = [\<lparr>role = User, parts = [''hi'']\<rparr>, \<lparr>role = Model, parts = [''hello'']\<rparr>]\<rparr>]"

definition silentModel :: "history_msg list \<Rightarrow> string \<Rightarrow> ai_reply" where
  "silentModel h m = Responds None"

definition failingModel :: "history_msg list \<Rightarrow> string \<Rightarrow> ai_reply" where
  "failingModel h m = Rejects (newError ''fetch failed'')"

text \<open>The storage of a fresh client, three payloads and a result.\<close>

definition emptyStorage :: local_storage where
  "emptyStorage = \<lparr>analysisQueue = None, analysisResults = None, healthAppUser = None,
                    healthAppToken = None, bookingHistoryCache = None\<rparr>"

definition payloadA :: payload where
  "payloadA = \<lparr>base64ImageData = ''QQ=='', mimeType = ''image/png'', p_language = ''en'',
                mcqAnswers = []\<rparr>"

definition payloadB :: payload where
  "payloadB = \<lparr>base64ImageData = ''Qg=='', mimeType = ''image/png'', p_language = ''en'',
                mcqAnswers = []\<rparr>"

definition payloadC :: payload where
  "payloadC = \<lparr>base64ImageData = ''Qw=='', mimeType = ''image/png'', p_language = ''en'',
                mcqAnswers = []\<rparr>"

definition mildResult :: triage where
  "mildResult = \<lparr>conclusion = ''MILD'', explanation = ''harmless'', selfCareTips = [],
                  doctorSuggestion = []\<rparr>"

text \<open>Two submissions queued within the same millisecond.\<close>

definition sameMsStorage :: local_storage where
  "sameMsStorage =
     queueAnalysisRequest 1700000000000 1700000000000 payloadB
       (queueAnalysisRequest 1700000000000 1700000000000 payloadA emptyStorage)"

text \<open>Three submissions A, B, C queued in that order, a millisecond apart.\<close>

definition abcStorage :: local_storage where
  "abcStorage =
     queueAnalysisRequest 103 103 payloadC
       (queueAnalysisRequest 102 102 payloadB (queueAnalysisRequest 101 101 payloadA emptyStorage))"

text \<open>The first call of a pass succeeds, every later one fails.\<close>

definition firstOnly :: "nat \<Rightarrow> payload \<Rightarrow> string + triage" where
  "firstOnly k p = (if k = 0 then Inr mildResult else Inl ''Unable to connect to the server.'')"

text \<open>Only the second call of a pass fails.\<close>

definition secondFails :: "nat \<Rightarrow> payload \<Rightarrow> string + triage" where
  "secondFails k p = (if k = 1 then Inl ''Unable to connect to the server.'' else Inr mildResult)"

text \<open>Nothing else touches the storage during a pass.\<close>

definition noWrites :: "nat \<Rightarrow> local_storage \<Rightarrow> local_storage" where
  "noWrites k ls = ls"

text \<open>While the second call of a pass is awaited, a fourth request D is queued.\<close>

definition payloadD :: payload where
  "payloadD = \<lparr>base64ImageData = ''RA=='', mimeType = ''image/png'', p_language = ''en'',
                mcqAnswers = []\<rparr>"

definition lateEnqueue :: "nat \<Rightarrow> local_storage \<Rightarrow> local_storage" where
  "lateEnqueue k ls = (if k = 1 then queueAnalysisRequest 104 104 payloadD ls else ls)"

text \<open>A model that replies without text.\<close>

definition emptyReplyAi :: "ai_request \<Rightarrow> ai_reply" where
  "emptyReplyAi request = Responds None"

text \<open>Other traffic after a session was consumed: time passes, another image is
  described under another id, and that one is concluded.\<close>

definition otherTraffic :: "event list" where
  "otherTraffic =
     [ElapseEv 1000,
      DescribeEv scenarioAi ''b2'' \<lparr>d_base64ImageData = ''aGk='', d_mimeType = ''image/png''\<rparr>,
      LookupEv \<lparr>c_analysisId = ''b2'', c_mcqAnswers = None, c_language = ''en''\<rparr>,
      FinishEv ''b2'' (Responds (Some scenarioReply)),
      ElapseEv expiry]"

text \<open>A conclusion request one minute after the creation to which the model replies
  with no text, and then fifteen more minutes.\<close>

definition staleRun :: "event list" where
  "staleRun = [ElapseEv 60000, LookupEv scenarioReq, FinishEv ''a1'' (Responds None),
               ElapseEv expiry]"

section \<open>The parse of a reply\<close>

lemma parse_scenarioReply:
  "buildTriage (parseLines scenarioReply) =
     Some \<lparr>conclusion = ''MILD'', explanation = ''...'', selfCareTips = [''Rest''],
            doctorSuggestion = []\<rparr>"
  by code_simp

lemma truthy_scenarioReply: "truthy scenarioReply"
  by (simp add: scenarioReply_def truthy_def)

text \<open>
  C5, as the code has it. When \<open>get-skin-conclusion\<close> finds the cached description
  and the model replies with the five lines of the scenario, the result has conclusion
  \<open>MILD\<close> and explanation \<open>...\<close>; its \<open>selfCareTips\<close> are \<open>["Rest"]\<close> only, because
  the line \<open>* Hydrate\<close> starts with no label and is skipped; its \<open>doctorSuggestion\<close>
  is the empty string, which is what the handler sends for an absent suggestion.
\<close>

theorem conclusion_scenario:
  assumes "analysisCache s (c_analysisId req) = Some cached"
    and "ai (PromptRequest (analysisPrompt (c_language req) (description cached)
               (additionalInfo (c_mcqAnswers req)))) = Responds (Some scenarioReply)"
  shows "fst (getSkinConclusion ai req s) =
           Json_triage \<lparr>conclusion = ''MILD'', explanation = ''...'',
                         selfCareTips = [''Rest''], doctorSuggestion = []\<rparr>"
  using assms
  by (simp add: getSkinConclusion_def conclusionLookup_def conclusionFinish_def
        truthy_scenarioReply parse_scenarioReply)

lemma scenarioServer_cache:
  "analysisCache scenarioServer ''a1'' = Some \<lparr>description = ''redness, no swelling'', cleanupTimer = 0\<rparr>"
  by (simp add: scenarioServer_def describeSkinImage_def scenarioAi_def truthy_def setTimeout_def initialServer_def)

text \<open>The scenario itself: description \<open>redness, no swelling\<close>, no answers.\<close>

theorem conclusion_scenario_witness:
  "fst (getSkinConclusion scenarioAi scenarioReq scenarioServer) =
           Json_triage \<lparr>conclusion = ''MILD'', explanation = ''...'',
                         selfCareTips = [''Rest''], doctorSuggestion = []\<rparr>"
  using conclusion_scenario [of scenarioServer scenarioReq "\<lparr>description = ''redness, no swelling'', cleanupTimer = 0\<rparr>" scenarioAi]
  by (simp add: scenarioServer_cache scenarioReq_def scenarioAi_def)

text \<open>
  C5 as stated fails there: the tips are not \<open>["Rest", "Hydrate"]\<close>, and the
  suggestion is present as the empty string.
\<close>

theorem conclusion_scenario_counterexample:
  "map_option selfCareTips (triageOf (fst (getSkinConclusion scenarioAi scenarioReq scenarioServer)))
     \<noteq> Some [''Rest'', ''Hydrate''] \<and>
   map_option doctorSuggestion (triageOf (fst (getSkinConclusion scenarioAi scenarioReq scenarioServer)))
     = Some []"
  by (simp add: getSkinConclusion_def conclusionLookup_def conclusionFinish_def
        scenarioServer_cache scenarioReq_def scenarioAi_def
        truthy_scenarioReply parse_scenarioReply)

section \<open>The combined endpoint and the two-step path\<close>

lemma handleAIError_describe_empty:
  "handleAIError (newError ''The AI could not analyze the provided image.'') =
     Status 500 ''The AI could not analyze the provided image.''"
  by code_simp

lemma handleAIError_conclusion_empty:
  "handleAIError (newError ''AI model returned an empty response during the final analysis.'') =
     Status 500 ''AI model returned an empty response during the final analysis.''"
  by code_simp

lemma handleAIError_conclusion_unparsable:
  "handleAIError (newError ''Received an unparsable response from the AI.'') =
     Status 500 ''Received an unparsable response from the AI.''"
  by code_simp

lemma handleAIError_combined_empty:
  "handleAIError (newError ''AI model returned an empty response.'') =
     Status 500 ''AI model returned an empty response.''"
  by code_simp

lemma handleAIError_combined_unparsable:
  "handleAIError (newError ''Received an unparsable AI response.'') =
     Status 500 ''Received an unparsable AI response.''"
  by code_simp

lemmas handleAIError_thrown =
  handleAIError_describe_empty handleAIError_conclusion_empty handleAIError_conclusion_unparsable
  handleAIError_combined_empty handleAIError_combined_unparsable

lemma handleAIError_Status: "\<exists>code msg. handleAIError e = Status code msg"
  by (simp add: handleAIError_def Let_def)

text \<open>
  C7, as the code has it. The image prompt and the parsing are the same on both paths,
  the conclusion prompts are worded differently. If the model answers the two
  conclusion prompts alike, \<open>analyze-skin\<close> and the two-step path produce the same
  result, or both fail with the same status code.
\<close>

theorem combined_matches_two_phase:
  assumes same: "\<forall>d. ai (PromptRequest (analysisPrompt (a_language req) d (additionalInfo (a_mcqAnswers req))))
             = ai (PromptRequest (analysisPromptCombined (a_language req) d
                                    (additionalInfo (a_mcqAnswers req))))"
  shows "triageOf (fst (onlineAnalysis ai uuid req s)) = triageOf (analyzeSkin ai req) \<and>
         statusOf (fst (onlineAnalysis ai uuid req s)) = statusOf (analyzeSkin ai req)"
proof (cases "truthy (a_base64ImageData req) \<and> truthy (a_mimeType req)")
  case False
  then show ?thesis
    by (auto simp: onlineAnalysis_def analyzeSkin_def describeSkinImage_def)
next
  case valid: True
  show ?thesis
  proof (cases "ai (ImageRequest (a_base64ImageData req) (a_mimeType req) singleImagePrompt)")
    case (Rejects e)
    obtain code msg where "handleAIError e = Status code msg"
      using handleAIError_Status by blast
    with valid Rejects show ?thesis
      by (simp add: onlineAnalysis_def analyzeSkin_def describeSkinImage_def)
  next
    case (Responds t)
    show ?thesis
    proof (cases "textOf t")
      case None
      with valid Responds show ?thesis
        by (simp add: onlineAnalysis_def analyzeSkin_def describeSkinImage_def
            handleAIError_describe_empty)
    next
      case (Some d)
      let ?p = "analysisPromptCombined (a_language req) d (additionalInfo (a_mcqAnswers req))"
      have two: "fst (onlineAnalysis ai uuid req s) =
                   fst (conclusionFinish uuid (ai (PromptRequest ?p))
                          (clearTimeout (nextTimer s) (snd (describeSkinImage ai uuid
                             \<lparr>d_base64ImageData = a_base64ImageData req,
                                d_mimeType = a_mimeType req\<rparr> s))))"
        using valid Responds Some same
        by (simp add: onlineAnalysis_def describeSkinImage_def getSkinConclusion_def
            conclusionLookup_def setTimeout_def)
      show ?thesis
      proof (cases "ai (PromptRequest ?p)")
        case (Rejects e)
        obtain code msg where "handleAIError e = Status code msg"
          using handleAIError_Status by blast
        with valid Responds Some Rejects two show ?thesis
          by (simp add: analyzeSkin_def conclusionFinish_def \<open>ai (ImageRequest _ _ _) = _\<close>)
      next
        case r2: (Responds t2)
        with valid Responds Some two show ?thesis
          by (simp add: analyzeSkin_def conclusionFinish_def handleAIError_thrown
              split: option.splits)
      qed
    qed
  qed
qed

text \<open>A model that answers every conclusion prompt alike.\<close>

theorem combined_matches_two_phase_witness:
  "triageOf (fst (onlineAnalysis constantAi ''a1'' sampleReq initialServer)) =
     triageOf (analyzeSkin constantAi sampleReq) \<and>
   statusOf (fst (onlineAnalysis constantAi ''a1'' sampleReq initialServer)) =
     statusOf (analyzeSkin constantAi sampleReq)"
  using combined_matches_two_phase [of constantAi sampleReq "''a1''" initialServer]
  by (simp add: constantAi_def)

lemma parse_serious:
  "buildTriage (parseLines ''CONCLUSION: SERIOUS\<newline>EXPLANATION: see a doctor'') =
     Some \<lparr>conclusion = ''SERIOUS'', explanation = ''see a doctor'', selfCareTips = [],
            doctorSuggestion = []\<rparr>"
  by code_simp

lemma parse_mild:
  "buildTriage (parseLines ''CONCLUSION: MILD\<newline>EXPLANATION: harmless'') =
     Some \<lparr>conclusion = ''MILD'', explanation = ''harmless'', selfCareTips = [],
            doctorSuggestion = []\<rparr>"
  by code_simp

lemma pickyAi_image: "pickyAi (ImageRequest d m p) = Responds (Some ''red patch'')"
  by (simp add: pickyAi_def)

lemma pickyAi_two_phase:
  "pickyAi (PromptRequest (analysisPrompt ''en'' ''red patch'' (additionalInfo (Some [])))) =
     Responds (Some ''CONCLUSION: MILD\<newline>EXPLANATION: harmless'')"
  by (simp add: pickyAi_def analysisPrompt_def)

lemma pickyAi_combined:
  "pickyAi (PromptRequest (analysisPromptCombined ''en'' ''red patch'' (additionalInfo (Some [])))) =
     Responds (Some ''CONCLUSION: SERIOUS\<newline>EXPLANATION: see a doctor'')"
  by (simp add: pickyAi_def analysisPromptCombined_def)

text \<open>
  C7 as stated fails: the two conclusion prompts differ, so a model that tells them
  apart makes the two paths return different results for the same image, answers and
  language.
\<close>

theorem combined_matches_two_phase_counterexample:
  "analysisPrompt ''en'' ''red patch'' (additionalInfo (Some [])) \<noteq>
     analysisPromptCombined ''en'' ''red patch'' (additionalInfo (Some [])) \<and>
   map_option conclusion (triageOf (fst (onlineAnalysis pickyAi ''a1'' sampleReq initialServer)))
     = Some ''MILD'' \<and>
   map_option conclusion (triageOf (analyzeSkin pickyAi sampleReq)) = Some ''SERIOUS''"
proof -
  have "analysisPrompt ''en'' ''red patch'' (additionalInfo (Some [])) \<noteq>
     analysisPromptCombined ''en'' ''red patch'' (additionalInfo (Some []))"
    by (simp add: analysisPrompt_def analysisPromptCombined_def)
  moreover have "map_option conclusion (triageOf (analyzeSkin pickyAi sampleReq)) = Some ''SERIOUS''"
    by (simp add: analyzeSkin_def sampleReq_def truthy_def pickyAi_image pickyAi_combined
        parse_serious)
  moreover have "map_option conclusion
      (triageOf (fst (onlineAnalysis pickyAi ''a1'' sampleReq initialServer))) = Some ''MILD''"
    by (simp add: onlineAnalysis_def describeSkinImage_def getSkinConclusion_def
        conclusionLookup_def conclusionFinish_def setTimeout_def initialServer_def
        sampleReq_def truthy_def pickyAi_image pickyAi_two_phase parse_mild)
  ultimately show ?thesis by blast
qed

section \<open>History sanitization\<close>

text \<open>
  Two requests of one phone whose message is a single space, answered by the model
  with \<open>a\<close> and with \<open>b\<close>: the history stored afterwards.
\<close>

lemma blankTurns_stored: "storedHistory blankTurnsDb ''900'' = blankTurnsHistory"
  by (simp add: blankTurnsDb_def chat_def findSession_def replyWith_def truthy_def
      storedHistory_def blankTurnsHistory_def Let_def)

lemma hasText_blank: "hasText \<lparr>role = r, parts = ['' '']\<rparr> = False"
  by (simp add: hasText_def trim_def isWhiteSpace_def truthy_def)

lemma hasText_a: "hasText \<lparr>role = r, parts = [''a'']\<rparr> = True"
  by (simp add: hasText_def trim_def isWhiteSpace_def truthy_def)

lemma hasText_b: "hasText \<lparr>role = r, parts = [''b'']\<rparr> = True"
  by (simp add: hasText_def trim_def isWhiteSpace_def truthy_def)

text \<open>
  C1 fails on the code. After those two turns the stored history is user, model, user,
  model with both user messages blank. Step 1 drops the blank messages, step 3 removes
  one leading model message only, and what is handed to the model is the single model
  message \<open>b\<close>: a sequence that does not start with \<open>user\<close>.
\<close>

theorem sanitize_blank_turns:
  "sanitizeHistory (storedHistory blankTurnsDb ''900'') = [\<lparr>role = Model, parts = [''b'']\<rparr>] \<and>
   \<not> startsWithUser (sanitizeHistory (storedHistory blankTurnsDb ''900''))"
  by (simp add: blankTurns_stored blankTurnsHistory_def sanitizeHistory_def hasText_blank
      hasText_a hasText_b dropLeadingModel_def alternate_def alternateStep_def
      dropTrailingUser_def startsWithUser_def)

text \<open>
  What the procedure does establish for every stored history: the result alternates,
  it ends with \<open>model\<close> unless it is empty, and it starts with \<open>user\<close> exactly when
  the history does after steps 1 and 3.
\<close>

lemma alternates_snoc:
  "alternates (xs @ [c]) \<longleftrightarrow> alternates xs \<and> (xs = [] \<or> role (last xs) \<noteq> role c)"
  by (induction xs rule: alternates.induct) auto

lemma alternates_butlast: "alternates xs \<Longrightarrow> alternates (butlast xs)"
  by (induction xs rule: alternates.induct) auto

lemma alternates_last_butlast:
  "alternates xs \<Longrightarrow> butlast xs \<noteq> [] \<Longrightarrow> role (last (butlast xs)) \<noteq> role (last xs)"
  by (induction xs rule: alternates.induct) (auto split: if_splits)

lemma alternateStep_inv:
  assumes "acc \<noteq> []" "alternates acc"
  shows "alternateStep acc c \<noteq> [] \<and> alternates (alternateStep acc c) \<and>
         role (hd (alternateStep acc c)) = role (hd acc)"
proof -
  from assms(1) obtain ys y where acc: "acc = ys @ [y]"
    by (cases acc rule: rev_cases) auto
  with assms(2) have ys: "alternates ys" "ys = [] \<or> role (last ys) \<noteq> role y"
    by (simp_all add: alternates_snoc)
  show ?thesis
  proof (cases "role c = role y")
    case True
    with acc ys show ?thesis
      by (auto simp: alternateStep_def alternates_snoc hd_append)
  next
    case False
    moreover have "last acc = y" using acc by simp
    ultimately show ?thesis using assms
      by (auto simp: alternateStep_def alternates_snoc hd_append)
  qed
qed

lemma foldl_alternateStep_inv:
  "acc \<noteq> [] \<Longrightarrow> alternates acc \<Longrightarrow>
     foldl alternateStep acc cs \<noteq> [] \<and> alternates (foldl alternateStep acc cs) \<and>
     role (hd (foldl alternateStep acc cs)) = role (hd acc)"
proof (induction cs arbitrary: acc)
  case Nil
  then show ?case by simp
next
  case (Cons c cs)
  from alternateStep_inv [OF Cons.prems, of c] Cons.IH [of "alternateStep acc c"]
  show ?case by simp
qed

lemma alternate_alternates: "alternates (alternate h)"
  using foldl_alternateStep_inv [of "[hd h]" "tl h"] by (simp add: alternate_def)

lemma alternate_hd: "h \<noteq> [] \<Longrightarrow> alternate h \<noteq> [] \<and> role (hd (alternate h)) = role (hd h)"
  using foldl_alternateStep_inv [of "[hd h]" "tl h"] by (simp add: alternate_def)

lemma alternate_Nil: "alternate [] = []"
  by (simp add: alternate_def)

lemma sanitize_alternates: "alternates (sanitizeHistory h)"
  by (simp add: sanitizeHistory_def dropTrailingUser_def alternate_alternates alternates_butlast)

lemma role_not_User: "r \<noteq> User \<longleftrightarrow> r = Model"
  by (cases r) auto

lemma sanitize_endsWithModel: "endsWithModel (sanitizeHistory h)"
proof -
  let ?a = "alternate (dropLeadingModel (filter hasText h))"
  show ?thesis
  proof (cases "?a \<noteq> [] \<and> role (last ?a) = User")
    case True
    then have "butlast ?a \<noteq> [] \<Longrightarrow> role (last (butlast ?a)) = Model"
      using alternates_last_butlast [OF alternate_alternates, of "dropLeadingModel (filter hasText h)"]
      by (simp add: role_not_User)
    with True show ?thesis
      by (auto simp: sanitizeHistory_def dropTrailingUser_def endsWithModel_def)
  next
    case False
    then show ?thesis
      by (auto simp: sanitizeHistory_def dropTrailingUser_def endsWithModel_def role_not_User)
  qed
qed

lemma sanitize_startsWithUser:
  "startsWithUser (sanitizeHistory h) \<longleftrightarrow>
     startsWithUser (dropLeadingModel (filter hasText h))"
proof -
  let ?l = "dropLeadingModel (filter hasText h)"
  show ?thesis
  proof (cases "?l = []")
    case True
    then show ?thesis
      by (simp add: sanitizeHistory_def alternate_Nil dropTrailingUser_def startsWithUser_def)
  next
    case False
    from alternate_hd [OF False] have ne: "alternate ?l \<noteq> []"
      and hd: "role (hd (alternate ?l)) = role (hd ?l)" by auto
    show ?thesis
    proof (cases "role (hd ?l)")
      case User
      with ne hd show ?thesis
        by (cases "alternate ?l" rule: rev_cases; cases "butlast (alternate ?l)")
           (auto simp: sanitizeHistory_def dropTrailingUser_def startsWithUser_def hd_append)
    next
      case Model
      have "dropTrailingUser (alternate ?l) \<noteq> [] \<and>
            role (hd (dropTrailingUser (alternate ?l))) = Model"
      proof (cases "role (last (alternate ?l)) = User")
        case True
        with ne hd Model have "butlast (alternate ?l) \<noteq> []"
          by (cases "alternate ?l" rule: rev_cases) (auto simp: hd_append split: if_splits)
        with ne hd Model True show ?thesis
          by (cases "alternate ?l" rule: rev_cases) (auto simp: dropTrailingUser_def hd_append)
      next
        case False
        with ne hd Model show ?thesis by (simp add: dropTrailingUser_def)
      qed
      with False Model show ?thesis
        by (simp add: sanitizeHistory_def startsWithUser_def)
    qed
  qed
qed

section \<open>The stored history after a chat request\<close>

text \<open>
  C6, as the code has it. When the message is not empty, the history stored after the
  request is the history of the session found (or reset), followed by: nothing when the
  reply has no text, the user's turn having been removed again; the user's turn when the
  model call rejects, which no code path removes; the user's and the model's turn when
  the model replies.
\<close>

theorem chat_stored_history:
  assumes "truthy (message req)"
  shows "storedHistory (snd (chat sendMessage validationError phone req db)) phone =
           (let before = history (fst (findSession phone (language req) db))
            in case sendMessage (sanitizeHistory before) (message req) of
                 Rejects e \<Rightarrow> before @ [\<lparr>role = User, parts = [message req]\<rparr>]
               | Responds t \<Rightarrow>
                   (case textOf t of
                      None \<Rightarrow> before
                    | Some responseText \<Rightarrow>
                        before @ [\<lparr>role = User, parts = [message req]\<rparr>,
                                  \<lparr>role = Model, parts = [responseText]\<rparr>]))"
  using assms
  by (simp add: chat_def storedHistory_def Let_def case_prod_unfold
      split: ai_reply.splits option.splits)

text \<open>
  A session of two turns and a reply without text: the two turns are what is stored.
\<close>

theorem chat_stored_history_witness:
  "truthy ''again'' \<and>
   storedHistory (snd (chat silentModel (newError ''validation'') ''900''
                         \<lparr>message = ''again'', language = ''en''\<rparr> greetedDb)) ''900'' =
     [\<lparr>role = User, parts = [''hi'']\<rparr>, \<lparr>role = Model, parts = [''hello'']\<rparr>]"
  using chat_stored_history [of "\<lparr>message = ''again'', language = ''en''\<rparr>" silentModel
      "newError ''validation''" "''900''" greetedDb]
  by (simp add: truthy_def silentModel_def findSession_def greetedDb_def)

text \<open>
  C6 as stated fails when the model call rejects: the stored history is one turn longer
  than before the request.
\<close>

theorem chat_rollback_counterexample:
  "length (storedHistory greetedDb ''900'') = 2 \<and>
   length (storedHistory (snd (chat failingModel (newError ''validation'') ''900''
                         \<lparr>message = ''again'', language = ''en''\<rparr> greetedDb)) ''900'') = 3"
  by (simp add: chat_def storedHistory_def findSession_def greetedDb_def failingModel_def
      truthy_def Let_def)

section \<open>Replay of the offline queue\<close>

lemma length_outcomes: "length (outcomes apiFetch k queue) = length queue"
  by (induction queue arbitrary: k) auto

text \<open>
  The loop in closed form: \<open>queue\<close> loses every entry whose id is the id of an entry
  whose call succeeded, and the storage is whatever the other handlers made of it.
\<close>

lemma replayLoop_eq:
  "replayLoop apiFetch meanwhile k rest (ls, queue, results, sent) =
     (interleaved meanwhile k (length rest) ls,
      filter (\<lambda>r. req_id r \<notin> req_id ` set (succeededEntries rest (outcomes apiFetch k rest))) queue,
      results @ successResults (outcomes apiFetch k rest),
      sent @ map req_payload rest)"
proof (induction rest arbitrary: k ls queue results sent)
  case Nil
  then show ?case by (simp add: succeededEntries_def successResults_def)
next
  case (Cons request rest)
  show ?case
  proof (cases "apiFetch k (req_payload request)")
    case (Inl error)
    then show ?thesis
      by (simp add: Cons.IH succeededEntries_def successResults_def)
  next
    case (Inr result)
    then show ?thesis
      by (simp add: Cons.IH succeededEntries_def successResults_def conj_commute)
  qed
qed

lemma succeededEntries_subset: "set (succeededEntries queue ocs) \<subseteq> set queue"
  by (auto simp: succeededEntries_def dest: set_zip_leftD)

lemma filter_succeeded_distinct:
  "distinct (map req_id queue) \<Longrightarrow> length ocs = length queue \<Longrightarrow>
     filter (\<lambda>r. req_id r \<notin> req_id ` set (succeededEntries queue ocs)) queue =
       failedEntries queue ocs"
proof (induction queue arbitrary: ocs)
  case Nil
  then show ?case by (simp add: failedEntries_def)
next
  case (Cons request rest)
  then obtain oc ocs' where ocs: "ocs = oc # ocs'" "length ocs' = length rest"
    by (cases ocs) auto
  from Cons.prems have fresh: "req_id request \<notin> req_id ` set rest" and d: "distinct (map req_id rest)"
    by auto
  have sub: "req_id ` set (succeededEntries rest ocs') \<subseteq> req_id ` set rest"
    using succeededEntries_subset by blast
  have IH: "filter (\<lambda>r. req_id r \<notin> req_id ` set (succeededEntries rest ocs')) rest =
              failedEntries rest ocs'"
    using Cons.IH [OF d ocs(2)] .
  show ?case
  proof (cases "isl oc")
    case True
    have "succeededEntries (request # rest) ocs = succeededEntries rest ocs'"
      using True ocs by (simp add: succeededEntries_def)
    moreover have "failedEntries (request # rest) ocs = request # failedEntries rest ocs'"
      using True ocs by (simp add: failedEntries_def)
    ultimately show ?thesis using fresh sub IH by auto
  next
    case False
    have s: "succeededEntries (request # rest) ocs = request # succeededEntries rest ocs'"
      using False ocs by (simp add: succeededEntries_def)
    have f: "failedEntries (request # rest) ocs = failedEntries rest ocs'"
      using False ocs by (simp add: failedEntries_def)
    have "filter (\<lambda>r. req_id r \<notin> req_id ` set (succeededEntries (request # rest) ocs)) rest =
          filter (\<lambda>r. req_id r \<notin> req_id ` set (succeededEntries rest ocs')) rest"
      using fresh by (intro filter_cong) (auto simp: s image_iff)
    then show ?thesis using IH by (simp add: s f)
  qed
qed

lemma processAnalysisQueue_eq:
  "processAnalysisQueue apiFetch meanwhile ls =
     (let queue = getQueue ls; ocs = outcomes apiFetch 0 queue
      in if queue = [] then (ls, [], False)
         else ((interleaved meanwhile 0 (length queue) ls)
                 \<lparr>analysisResults := Some (getResults ls @ successResults ocs),
                  analysisQueue := Some (filter (\<lambda>r. req_id r \<notin> req_id ` set (succeededEntries queue ocs)) queue)\<rparr>,
               map req_payload queue, True))"
  by (simp add: processAnalysisQueue_def replayLoop_eq Let_def)

text \<open>
  What a pass does to a queue whose ids are pairwise distinct, whatever else is written
  meanwhile. It sends the payloads of all entries read at the start, in queue order,
  whatever the outcomes of earlier calls; the queue stored afterwards holds exactly
  the entries whose call failed, in order; the result store holds the results read at
  the start and then those of the calls that succeeded, in order.
\<close>

lemma replay_pass:
  assumes "distinct (map req_id (getQueue ls))"
  shows "fst (snd (processAnalysisQueue apiFetch meanwhile ls)) = map req_payload (getQueue ls) \<and>
         getQueue (fst (processAnalysisQueue apiFetch meanwhile ls)) =
           failedEntries (getQueue ls) (outcomes apiFetch 0 (getQueue ls)) \<and>
         getResults (fst (processAnalysisQueue apiFetch meanwhile ls)) =
           getResults ls @ successResults (outcomes apiFetch 0 (getQueue ls))"
proof (cases "getQueue ls = []")
  case True
  then show ?thesis
    by (simp add: processAnalysisQueue_eq failedEntries_def successResults_def)
next
  case False
  then show ?thesis
    using filter_succeeded_distinct [OF assms length_outcomes, of apiFetch 0]
    by (simp add: processAnalysisQueue_eq Let_def getQueue_def getResults_def)
qed

lemma showNat_digits: "showNat 101 = ''101''" "showNat 102 = ''102''" "showNat 103 = ''103''"
  by (simp_all add: showNat.simps digitChar_def)

lemma showNat_sameMs: "showNat 1700000000000 = ''1700000000000''"
  by (simp add: showNat.simps digitChar_def)

lemma getQueue_abc:
  "getQueue abcStorage =
     [\<lparr>req_id = ''req_101'', req_payload = payloadA, req_timestamp = 101\<rparr>,
      \<lparr>req_id = ''req_102'', req_payload = payloadB, req_timestamp = 102\<rparr>,
      \<lparr>req_id = ''req_103'', req_payload = payloadC, req_timestamp = 103\<rparr>]"
  by (simp add: abcStorage_def queueAnalysisRequest_def getQueue_def emptyStorage_def
      showNat_digits)

lemma getResults_abc: "getResults abcStorage = []"
  by (simp add: abcStorage_def queueAnalysisRequest_def getResults_def emptyStorage_def)

lemma getQueue_sameMs:
  "getQueue sameMsStorage =
     [\<lparr>req_id = ''req_1700000000000'', req_payload = payloadA, req_timestamp = 1700000000000\<rparr>,
      \<lparr>req_id = ''req_1700000000000'', req_payload = payloadB, req_timestamp = 1700000000000\<rparr>]"
  by (simp add: sameMsStorage_def queueAnalysisRequest_def getQueue_def emptyStorage_def
      showNat_sameMs)

text \<open>
  A, B, C queued in that order, the call for B failing: all three payloads are sent in
  order, B alone stays queued, and two results are stored.
\<close>

lemma replay_pass_abc:
  "fst (snd (processAnalysisQueue secondFails noWrites abcStorage)) =
     [payloadA, payloadB, payloadC] \<and>
   getQueue (fst (processAnalysisQueue secondFails noWrites abcStorage)) =
     [\<lparr>req_id = ''req_102'', req_payload = payloadB, req_timestamp = 102\<rparr>] \<and>
   getResults (fst (processAnalysisQueue secondFails noWrites abcStorage)) =
     [mildResult, mildResult]"
  using replay_pass [of abcStorage secondFails noWrites]
  by (simp add: getQueue_abc getResults_abc secondFails_def failedEntries_def successResults_def)

text \<open>
  C2 fails on the code. A and B were queued within the same millisecond and so share
  their id. In one pass, with nothing else writing the storage, both payloads are sent
  in order, the call for A succeeds and the call for B fails; removing A by its id
  removes B as well, and the queue stored afterwards is empty although the call for B
  failed.
\<close>

theorem replay_drops_failed_entry:
  "fst (snd (processAnalysisQueue firstOnly noWrites sameMsStorage)) = [payloadA, payloadB] \<and>
   outcomes firstOnly 0 (getQueue sameMsStorage) =
     [Inr mildResult, Inl ''Unable to connect to the server.''] \<and>
   getQueue (fst (processAnalysisQueue firstOnly noWrites sameMsStorage)) = []"
  by (simp add: processAnalysisQueue_def getQueue_sameMs firstOnly_def noWrites_def)
     (simp add: getQueue_def)

text \<open>
  C8 fails on the code: two requests queued while \<open>Date.now()\<close> gives the same value
  get the same id.
\<close>

theorem same_millisecond_ids:
  "map req_id (getQueue sameMsStorage) = [''req_1700000000000'', ''req_1700000000000''] \<and>
   \<not> distinct (map req_id (getQueue sameMsStorage))"
  by (simp add: getQueue_sameMs)

text \<open>
  Requests queued while \<open>Date.now()\<close> gives different values do get different ids: the
  decimal text of a number determines it.
\<close>

lemma digitChar_inj: "a < 10 \<Longrightarrow> b < 10 \<Longrightarrow> digitChar a = digitChar b \<Longrightarrow> a = b"
proof -
  assume "a < 10" "b < 10" "digitChar a = digitChar b"
  moreover have "distinct ''0123456789''" by simp
  moreover have "length ''0123456789'' = 10" by simp
  ultimately show "a = b"
    unfolding digitChar_def by (metis nth_eq_iff_index_eq)
qed

lemma showNat_not_Nil: "showNat n \<noteq> []"
  by (subst showNat.simps) simp

lemma showNat_inj: "showNat n = showNat m \<Longrightarrow> n = m"
proof (induction n arbitrary: m rule: showNat.induct)
  case (1 n)
  show ?case
  proof (cases "n < 10")
    case small: True
    show ?thesis
    proof (cases "m < 10")
      case True
      with small "1.prems" show ?thesis
        by (simp add: showNat.simps [of n] showNat.simps [of m] digitChar_inj)
    next
      case False
      with small "1.prems" showNat_not_Nil [of "m div 10"] show ?thesis
        by (simp add: showNat.simps [of n] showNat.simps [of m] Cons_eq_append_conv)
    qed
  next
    case big: False
    show ?thesis
    proof (cases "m < 10")
      case True
      with big "1.prems" showNat_not_Nil [of "n div 10"] show ?thesis
        by (simp add: showNat.simps [of n] showNat.simps [of m] append_eq_Cons_conv)
    next
      case False
      with big "1.prems" have eq: "showNat (n div 10) = showNat (m div 10)"
        and d: "digitChar (n mod 10) = digitChar (m mod 10)"
        by (simp_all add: showNat.simps [of n] showNat.simps [of m])
      from "1.IH" [OF big eq] have "n div 10 = m div 10" .
      moreover from d have "n mod 10 = m mod 10" by (simp add: digitChar_inj)
      ultimately show ?thesis by (metis div_mult_mod_eq)
    qed
  qed
qed

lemma enqueue_keeps_distinct:
  assumes "distinct (map req_id (getQueue ls))"
    and "\<forall>r \<in> set (getQueue ls). req_id r \<noteq> ''req_'' @ showNat idNow"
  shows "distinct (map req_id (getQueue (queueAnalysisRequest idNow tsNow p ls)))"
  using assms by (auto simp: queueAnalysisRequest_def getQueue_def)

lemma distinct_times_distinct_ids:
  "idNow \<noteq> idNow' \<Longrightarrow>
     distinct (map req_id (getQueue (queueAnalysisRequest idNow' tsNow' p'
                                      (queueAnalysisRequest idNow tsNow p emptyStorage))))"
  by (auto simp: queueAnalysisRequest_def getQueue_def emptyStorage_def dest: showNat_inj)

lemma distinct_queue: "distinct (map req_id queue) \<Longrightarrow> distinct queue"
  by (rule distinct_map [THEN iffD1, THEN conjunct1])

lemma nth_in_failedEntries:
  assumes "distinct queue" "length ocs = length queue" "i < length queue"
  shows "queue ! i \<in> set (failedEntries queue ocs) \<longleftrightarrow> isl (ocs ! i)"
proof
  assume "queue ! i \<in> set (failedEntries queue ocs)"
  then obtain oc where "(queue ! i, oc) \<in> set (zip queue ocs)" "isl oc"
    by (auto simp: failedEntries_def)
  then obtain j where j: "j < length queue" "queue ! j = queue ! i" "ocs ! j = oc"
    using assms(2) by (auto simp: set_zip)
  with assms have "j = i" by (simp add: nth_eq_iff_index_eq)
  with j \<open>isl oc\<close> show "isl (ocs ! i)" by simp
next
  assume "isl (ocs ! i)"
  moreover have "(queue ! i, ocs ! i) \<in> set (zip queue ocs)"
    using assms by (auto simp: set_zip)
  ultimately show "queue ! i \<in> set (failedEntries queue ocs)"
    by (force simp: failedEntries_def)
qed

lemma failedEntries_subset: "set (failedEntries queue ocs) \<subseteq> set queue"
  by (auto simp: failedEntries_def dest: set_zip_leftD)

lemma interleaved_queue:
  "\<forall>k s. analysisQueue (meanwhile k s) = analysisQueue s \<Longrightarrow>
     analysisQueue (interleaved meanwhile k n ls) = analysisQueue ls"
  by (induction n arbitrary: k ls) simp_all

text \<open>
  A request queued while a pass awaits a call is in the storage when the pass writes the
  queue back, and is overwritten: it is neither sent nor queued afterwards.
\<close>

lemma lost_enqueue:
  "getQueue (interleaved lateEnqueue 0 3 abcStorage) =
     getQueue abcStorage @ [\<lparr>req_id = ''req_104'', req_payload = payloadD, req_timestamp = 104\<rparr>] \<and>
   fst (snd (processAnalysisQueue secondFails lateEnqueue abcStorage)) =
     [payloadA, payloadB, payloadC] \<and>
   getQueue (fst (processAnalysisQueue secondFails lateEnqueue abcStorage)) =
     [\<lparr>req_id = ''req_102'', req_payload = payloadB, req_timestamp = 102\<rparr>]"
proof -
  have "showNat 104 = ''104''"
    by (simp add: showNat.simps digitChar_def)
  then have "getQueue (interleaved lateEnqueue 0 3 abcStorage) =
     getQueue abcStorage @ [\<lparr>req_id = ''req_104'', req_payload = payloadD, req_timestamp = 104\<rparr>]"
    by (simp add: numeral_3_eq_3 lateEnqueue_def queueAnalysisRequest_def getQueue_def)
  moreover have "distinct (map req_id (getQueue abcStorage))"
    by (simp add: getQueue_abc)
  from replay_pass [OF this, of secondFails lateEnqueue]
  have "fst (snd (processAnalysisQueue secondFails lateEnqueue abcStorage)) =
     [payloadA, payloadB, payloadC] \<and>
   getQueue (fst (processAnalysisQueue secondFails lateEnqueue abcStorage)) =
     [\<lparr>req_id = ''req_102'', req_payload = payloadB, req_timestamp = 102\<rparr>]"
    by (simp add: getQueue_abc secondFails_def failedEntries_def)
  ultimately show ?thesis by blast
qed

text \<open>
  C9, as the code has it, for a queue whose ids are pairwise distinct and a pass during
  which no other handler writes the queue. \<open>queueAnalysisRequest\<close> removes nothing.
  The queue a pass of \<open>processAnalysisQueue\<close> overwrites at its end is the one it read
  at its start; of those entries, one is still queued afterwards exactly when its own
  call failed, and nothing else is queued. \<open>handleLogout\<close> discards the whole queue
  and the result store, with no call made.
\<close>

theorem queue_removal:
  assumes "distinct (map req_id (getQueue ls))"
    and "\<forall>k s. analysisQueue (meanwhile k s) = analysisQueue s"
  shows "getQueue (queueAnalysisRequest idNow tsNow p ls) =
           getQueue ls @ [\<lparr>req_id = ''req_'' @ showNat idNow, req_payload = p,
                            req_timestamp = tsNow\<rparr>] \<and>
         getQueue (interleaved meanwhile 0 (length (getQueue ls)) ls) = getQueue ls \<and>
         (\<forall>i < length (getQueue ls).
            (getQueue ls ! i \<in> set (getQueue (fst (processAnalysisQueue apiFetch meanwhile ls)))) =
              isl (outcomes apiFetch 0 (getQueue ls) ! i)) \<and>
         set (getQueue (fst (processAnalysisQueue apiFetch meanwhile ls))) \<subseteq> set (getQueue ls) \<and>
         getQueue (handleLogout ls) = [] \<and> getResults (handleLogout ls) = []"
proof -
  have q: "getQueue (fst (processAnalysisQueue apiFetch meanwhile ls)) =
             failedEntries (getQueue ls) (outcomes apiFetch 0 (getQueue ls))"
  proof (cases "getQueue ls = []")
    case True
    then show ?thesis by (simp add: processAnalysisQueue_eq failedEntries_def)
  next
    case False
    then show ?thesis
      using filter_succeeded_distinct [OF assms(1) length_outcomes, of apiFetch 0]
      by (simp add: processAnalysisQueue_eq Let_def getQueue_def)
  qed
  have "getQueue (queueAnalysisRequest idNow tsNow p ls) =
           getQueue ls @ [\<lparr>req_id = ''req_'' @ showNat idNow, req_payload = p,
                            req_timestamp = tsNow\<rparr>]"
    by (simp add: queueAnalysisRequest_def getQueue_def)
  moreover have "getQueue (interleaved meanwhile 0 (length (getQueue ls)) ls) = getQueue ls"
    using interleaved_queue [OF assms(2)] by (simp add: getQueue_def)
  moreover have "\<forall>i < length (getQueue ls).
            (getQueue ls ! i \<in> set (getQueue (fst (processAnalysisQueue apiFetch meanwhile ls)))) =
              isl (outcomes apiFetch 0 (getQueue ls) ! i)"
    using nth_in_failedEntries [OF distinct_queue [OF assms(1)] length_outcomes]
    by (simp add: q)
  moreover have "set (getQueue (fst (processAnalysisQueue apiFetch meanwhile ls))) \<subseteq> set (getQueue ls)"
    by (simp add: q failedEntries_subset)
  moreover have "getQueue (handleLogout ls) = [] \<and> getResults (handleLogout ls) = []"
    by (simp add: handleLogout_def getQueue_def getResults_def)
  ultimately show ?thesis by blast
qed

text \<open>
  The queue A, B, C with the call for B failing and nothing else written meanwhile.
\<close>

theorem queue_removal_witness:
  "distinct (map req_id (getQueue abcStorage)) \<and>
   getQueue (interleaved noWrites 0 3 abcStorage) = getQueue abcStorage \<and>
   \<lparr>req_id = ''req_101'', req_payload = payloadA, req_timestamp = 101\<rparr>
     \<notin> set (getQueue (fst (processAnalysisQueue secondFails noWrites abcStorage))) \<and>
   \<lparr>req_id = ''req_102'', req_payload = payloadB, req_timestamp = 102\<rparr>
     \<in> set (getQueue (fst (processAnalysisQueue secondFails noWrites abcStorage))) \<and>
   getQueue (handleLogout abcStorage) = [] \<and> getResults (handleLogout abcStorage) = []"
  using queue_removal [of abcStorage noWrites 104 104 payloadA secondFails]
  by (simp add: getQueue_abc secondFails_def All_less_Suc noWrites_def numeral_3_eq_3)

text \<open>
  C9 as stated fails: logging out removes the three pending entries though none of them
  was completed.
\<close>

theorem queue_removal_counterexample:
  "getQueue abcStorage \<noteq> [] \<and> getQueue (handleLogout abcStorage) = []"
  by (simp add: getQueue_abc) (simp add: handleLogout_def getQueue_def)

section \<open>The life of an analysis session\<close>

lemma scenarioServer_eq:
  "scenarioServer =
     \<lparr>analysisCache = [''a1'' \<mapsto> \<lparr>description = ''redness, no swelling'', cleanupTimer = 0\<rparr>],
       timers = [0 \<mapsto> (expiry, ''a1'')], nextTimer = Suc 0, clock = 0\<rparr>"
  by (simp add: scenarioServer_def describeSkinImage_def scenarioAi_def truthy_def
      setTimeout_def initialServer_def)

lemma scenario_request_served:
  "fst (getSkinConclusion scenarioAi scenarioReq scenarioServer) =
     Json_triage \<lparr>conclusion = ''MILD'', explanation = ''...'', selfCareTips = [''Rest''],
                   doctorSuggestion = []\<rparr>"
  by (simp add: getSkinConclusion_def conclusionLookup_def conclusionFinish_def
      scenarioServer_eq scenarioReq_def scenarioAi_def truthy_scenarioReply parse_scenarioReply)

lemma triageOf_handleAIError: "triageOf (handleAIError e) = None"
  by (simp add: handleAIError_def Let_def)

lemma conclusionFinish_triage: "triageOf (fst (conclusionFinish aid reply s)) = replyTriage reply"
  by (simp add: conclusionFinish_def replyTriage_def triageOf_handleAIError
      split: ai_reply.splits option.splits)

lemma conclusionFinish_state:
  "snd (conclusionFinish aid reply s) =
     (case replyTriage reply of
        None \<Rightarrow> s
      | Some r \<Rightarrow> s\<lparr>analysisCache := (analysisCache s)(aid := None)\<rparr>)"
  by (simp add: conclusionFinish_def replyTriage_def split: ai_reply.splits option.splits)

lemma conclusionLookup_state:
  "snd (conclusionLookup req s) =
     (case analysisCache s (c_analysisId req) of
        None \<Rightarrow> s
      | Some cached \<Rightarrow> clearTimeout (cleanupTimer cached) s)"
  by (simp add: conclusionLookup_def split: option.splits)

lemma describe_state:
  "snd (describeSkinImage ai uuid req s) = s \<or>
   (\<exists>d. snd (describeSkinImage ai uuid req s) =
      s\<lparr>timers := (timers s)(nextTimer s \<mapsto> (clock s + expiry, uuid)),
        nextTimer := Suc (nextTimer s),
        analysisCache := (analysisCache s)(uuid \<mapsto> \<lparr>description = d, cleanupTimer = nextTimer s\<rparr>)\<rparr>)"
  by (auto simp: describeSkinImage_def setTimeout_def split: ai_reply.splits option.splits)

text \<open>
  An id that is absent from the cache stays absent until a describe request creates it.
\<close>

lemma runTimer_absent: "analysisCache s i = None \<Longrightarrow> analysisCache (runTimer h s) i = None"
  by (simp add: runTimer_def split: option.splits)

lemma fold_runTimer_absent:
  "analysisCache s i = None \<Longrightarrow> analysisCache (fold runTimer hs s) i = None"
  by (induction hs arbitrary: s) (simp_all add: runTimer_absent)

lemma elapse_absent: "analysisCache s i = None \<Longrightarrow> analysisCache (elapse d s) i = None"
  by (simp add: elapse_def fold_runTimer_absent)

lemma step_absent:
  "analysisCache s i = None \<Longrightarrow> createsNot i e \<Longrightarrow> analysisCache (step e s) i = None"
proof (cases e)
  case (DescribeEv ai uuid req)
  assume "analysisCache s i = None" "createsNot i e"
  with DescribeEv describe_state [of ai uuid req s] show ?thesis by auto
next
  case (LookupEv req)
  assume "analysisCache s i = None"
  with LookupEv show ?thesis
    by (simp add: conclusionLookup_state clearTimeout_def split: option.splits)
next
  case (FinishEv aid reply)
  assume "analysisCache s i = None"
  with FinishEv show ?thesis
    by (simp add: conclusionFinish_state split: option.splits)
next
  case (ElapseEv d)
  assume "analysisCache s i = None"
  with ElapseEv show ?thesis by (simp add: elapse_absent)
qed

lemma run_absent:
  "analysisCache s i = None \<Longrightarrow> \<forall>e \<in> set evs. createsNot i e \<Longrightarrow>
     analysisCache (run evs s) i = None"
  unfolding run_def
  by (induction evs arbitrary: s) (simp_all add: step_absent)

lemma getSkinConclusion_success:
  assumes "getSkinConclusion ai req s = (Json_triage r, s')"
  shows "analysisCache s' (c_analysisId req) = None"
proof (cases "analysisCache s (c_analysisId req)")
  case None
  with assms show ?thesis by (simp add: getSkinConclusion_def conclusionLookup_def)
next
  case (Some cached)
  let ?s1 = "clearTimeout (cleanupTimer cached) s"
  let ?reply = "ai (PromptRequest (analysisPrompt (c_language req) (description cached)
                      (additionalInfo (c_mcqAnswers req))))"
  from assms Some have fin: "conclusionFinish (c_analysisId req) ?reply ?s1 = (Json_triage r, s')"
    by (simp add: getSkinConclusion_def conclusionLookup_def)
  then have "replyTriage ?reply = Some r"
    using conclusionFinish_triage [of "c_analysisId req" ?reply ?s1] by simp
  with fin conclusionFinish_state [of "c_analysisId req" ?reply ?s1] show ?thesis
    by auto
qed

lemma getSkinConclusion_miss:
  "analysisCache s (c_analysisId req) = None \<Longrightarrow>
     getSkinConclusion ai req s =
       (Status 404 ''Analysis session not found or expired. Please start over.'', s)"
  by (simp add: getSkinConclusion_def conclusionLookup_def)

text \<open>
  C3. Once a conclusion request has returned a result, every later conclusion request
  for the same id gets the 404 answer and changes nothing, whatever happened in between
  short of a describe request drawing that very id again.
\<close>

theorem consumed_session_gone:
  assumes "getSkinConclusion ai req s = (Json_triage r, s')"
    and "\<forall>e \<in> set evs. createsNot (c_analysisId req) e"
    and "c_analysisId req' = c_analysisId req"
  shows "getSkinConclusion ai' req' (run evs s') =
           (Status 404 ''Analysis session not found or expired. Please start over.'', run evs s')"
  using run_absent [OF getSkinConclusion_success [OF assms(1)] assms(2)] assms(3)
  by (simp add: getSkinConclusion_miss)

text \<open>
  The scenario session is consumed, other traffic follows, and the id is asked again.
\<close>

theorem consumed_session_gone_witness:
  "fst (getSkinConclusion scenarioAi scenarioReq scenarioServer) =
     Json_triage \<lparr>conclusion = ''MILD'', explanation = ''...'', selfCareTips = [''Rest''],
                   doctorSuggestion = []\<rparr> \<and>
   fst (getSkinConclusion scenarioAi scenarioReq
          (run otherTraffic (snd (getSkinConclusion scenarioAi scenarioReq scenarioServer)))) =
     Status 404 ''Analysis session not found or expired. Please start over.''"
proof -
  have "\<forall>e \<in> set otherTraffic. createsNot (c_analysisId scenarioReq) e"
    by (simp add: otherTraffic_def scenarioReq_def)
  moreover have "getSkinConclusion scenarioAi scenarioReq scenarioServer =
     (Json_triage \<lparr>conclusion = ''MILD'', explanation = ''...'', selfCareTips = [''Rest''],
                    doctorSuggestion = []\<rparr>,
      snd (getSkinConclusion scenarioAi scenarioReq scenarioServer))"
    by (simp add: prod_eq_iff scenario_request_served)
  ultimately show ?thesis
    using consumed_session_gone [of scenarioAi scenarioReq scenarioServer _ _ otherTraffic
        scenarioReq scenarioAi]
    by (simp add: scenario_request_served)
qed

text \<open>
  An entry that no pending timeout targets stays in the cache as long as no conclusion
  of its id succeeds.
\<close>

lemma runTimer_kept:
  assumes "analysisCache s i = Some c" "\<forall>h due. timers s h \<noteq> Some (due, i)"
  shows "analysisCache (runTimer k s) i = Some c \<and> (\<forall>h due. timers (runTimer k s) h \<noteq> Some (due, i))"
  using assms by (auto simp: runTimer_def split: option.splits)

lemma fold_runTimer_kept:
  "analysisCache s i = Some c \<Longrightarrow> \<forall>h due. timers s h \<noteq> Some (due, i) \<Longrightarrow>
     analysisCache (fold runTimer hs s) i = Some c \<and>
     (\<forall>h due. timers (fold runTimer hs s) h \<noteq> Some (due, i))"
proof (induction hs arbitrary: s)
  case Nil
  then show ?case by simp
next
  case (Cons k hs)
  from runTimer_kept [OF Cons.prems, of k] Cons.IH [of "runTimer k s"]
  show ?case by simp
qed

lemma step_kept:
  assumes "analysisCache s i = Some c" "\<forall>h due. timers s h \<noteq> Some (due, i)" "leavesAlone i e"
  shows "analysisCache (step e s) i = Some c \<and> (\<forall>h due. timers (step e s) h \<noteq> Some (due, i))"
proof (cases e)
  case (DescribeEv ai uuid req)
  with assms describe_state [of ai uuid req s] show ?thesis by (auto split: if_splits)
next
  case (LookupEv req)
  with assms show ?thesis
    by (auto simp: conclusionLookup_state clearTimeout_def split: option.splits)
next
  case (FinishEv aid reply)
  with assms show ?thesis
    by (auto simp: conclusionFinish_state split: option.splits)
next
  case (ElapseEv d)
  with assms fold_runTimer_kept [of "s\<lparr>clock := clock s + d\<rparr>" i c "[0..<nextTimer s]"]
  show ?thesis by (simp add: elapse_def)
qed

lemma run_kept:
  "analysisCache s i = Some c \<Longrightarrow> \<forall>h due. timers s h \<noteq> Some (due, i) \<Longrightarrow>
   \<forall>e \<in> set evs. leavesAlone i e \<Longrightarrow>
     analysisCache (run evs s) i = Some c \<and> (\<forall>h due. timers (run evs s) h \<noteq> Some (due, i))"
  unfolding run_def
proof (induction evs arbitrary: s)
  case Nil
  then show ?case by simp
next
  case (Cons e evs)
  from step_kept [OF Cons.prems(1,2), of e] Cons.prems(3) Cons.IH [of "step e s"]
  show ?case by simp
qed

text \<open>
  C10. A conclusion request finds the session, whose only pending timeout is the one
  recorded in its entry, and fails. Then no timeout is left for the id; through all
  later events other than a successful conclusion of the id (or a describe request
  drawing the id again) the entry stays as it was, however much time passes; and the
  lookup of a later request for the id finds it and builds its prompt.
\<close>

theorem failed_conclusion_keeps_session:
  assumes hit: "analysisCache s (c_analysisId req) = Some cached"
    and own: "\<forall>h due. timers s h = Some (due, c_analysisId req) \<longrightarrow> h = cleanupTimer cached"
    and fail: "triageOf (fst (getSkinConclusion ai req s)) = None"
    and later: "\<forall>e \<in> set evs. leavesAlone (c_analysisId req) e"
  shows "(\<forall>h due. timers (snd (getSkinConclusion ai req s)) h \<noteq> Some (due, c_analysisId req)) \<and>
         analysisCache (run evs (snd (getSkinConclusion ai req s))) (c_analysisId req) = Some cached \<and>
         fst (conclusionLookup req (run evs (snd (getSkinConclusion ai req s)))) =
           Inr (analysisPrompt (c_language req) (description cached)
                  (additionalInfo (c_mcqAnswers req)))"
proof -
  let ?s1 = "clearTimeout (cleanupTimer cached) s"
  let ?reply = "ai (PromptRequest (analysisPrompt (c_language req) (description cached)
                      (additionalInfo (c_mcqAnswers req))))"
  have run1: "getSkinConclusion ai req s = conclusionFinish (c_analysisId req) ?reply ?s1"
    using hit by (simp add: getSkinConclusion_def conclusionLookup_def)
  with fail have "replyTriage ?reply = None"
    by (simp add: conclusionFinish_triage)
  then have after: "snd (getSkinConclusion ai req s) = ?s1"
    by (simp add: run1 conclusionFinish_state)
  have c1: "analysisCache ?s1 (c_analysisId req) = Some cached"
    using hit by (simp add: clearTimeout_def)
  have t1: "\<forall>h due. timers ?s1 h \<noteq> Some (due, c_analysisId req)"
    using own by (auto simp: clearTimeout_def)
  from run_kept [OF c1 t1 later]
  have "analysisCache (run evs ?s1) (c_analysisId req) = Some cached" by simp
  then show ?thesis
    using t1 by (simp add: after conclusionLookup_def)
qed

text \<open>
  The scenario session, a reply without text, and twice the expiry time.
\<close>

theorem failed_conclusion_keeps_session_witness:
  "analysisCache (run [ElapseEv expiry, ElapseEv expiry]
       (snd (getSkinConclusion emptyReplyAi scenarioReq scenarioServer))) ''a1'' =
     Some \<lparr>description = ''redness, no swelling'', cleanupTimer = 0\<rparr>"
proof -
  have hit: "analysisCache scenarioServer (c_analysisId scenarioReq) =
               Some \<lparr>description = ''redness, no swelling'', cleanupTimer = 0\<rparr>"
    by (simp add: scenarioServer_eq scenarioReq_def)
  have own: "\<forall>h due. timers scenarioServer h = Some (due, c_analysisId scenarioReq) \<longrightarrow>
               h = cleanupTimer \<lparr>description = ''redness, no swelling'', cleanupTimer = 0\<rparr>"
    by (simp add: scenarioServer_eq scenarioReq_def)
  have fail: "triageOf (fst (getSkinConclusion emptyReplyAi scenarioReq scenarioServer)) = None"
    by (simp add: getSkinConclusion_def conclusionLookup_def conclusionFinish_def
        scenarioServer_eq scenarioReq_def emptyReplyAi_def triageOf_handleAIError)
  have later: "\<forall>e \<in> set [ElapseEv expiry, ElapseEv expiry]. leavesAlone (c_analysisId scenarioReq) e"
    by simp
  from failed_conclusion_keeps_session [OF hit own fail later]
  show ?thesis by (simp add: scenarioReq_def)
qed

text \<open>
  The state sixteen minutes after the creation, when a conclusion request failed after
  one minute.
\<close>

lemma staleRun_state:
  "run staleRun scenarioServer =
     \<lparr>analysisCache = [''a1'' \<mapsto> \<lparr>description = ''redness, no swelling'', cleanupTimer = 0\<rparr>],
       timers = Map.empty, nextTimer = Suc 0, clock = 60000 + expiry\<rparr>"
  by (simp add: staleRun_def run_def scenarioServer_eq elapse_def runTimer_def expiry_def
      conclusionLookup_def conclusionFinish_def scenarioReq_def clearTimeout_def
      handleAIError_def Let_def)

text \<open>
  C4 fails on the code. The session was not consumed within fifteen minutes of its
  creation; sixteen minutes after it the entry is still cached, and a conclusion
  request for it is served.
\<close>

theorem session_outlives_expiry:
  "clock (run staleRun scenarioServer) = 60000 + expiry \<and>
   analysisCache (run staleRun scenarioServer) ''a1'' =
     Some \<lparr>description = ''redness, no swelling'', cleanupTimer = 0\<rparr> \<and>
   fst (getSkinConclusion scenarioAi scenarioReq (run staleRun scenarioServer)) =
     Json_triage \<lparr>conclusion = ''MILD'', explanation = ''...'', selfCareTips = [''Rest''],
                   doctorSuggestion = []\<rparr>"
  by (simp add: staleRun_state getSkinConclusion_def conclusionLookup_def conclusionFinish_def
      scenarioReq_def scenarioAi_def truthy_scenarioReply parse_scenarioReply)

text \<open>
  Without any conclusion request in between, a session is gone once the expiry time has
  passed.
\<close>

lemma fold_runTimer_pending:
  "k \<notin> set hs \<Longrightarrow> timers (fold runTimer hs s) k = timers s k \<and>
     clock (fold runTimer hs s) = clock s"
  by (induction hs arbitrary: s) (auto simp: runTimer_def split: option.splits)

lemma due_timer_evicts:
  assumes "timers s k = Some (due, i)" "k < nextTimer s" "due \<le> clock s + d"
  shows "analysisCache (elapse d s) i = None"
proof -
  let ?s0 = "s\<lparr>clock := clock s + d\<rparr>"
  let ?s1 = "fold runTimer [0..<k] ?s0"
  have "[0..<nextTimer s] = [0..<k] @ [k..<nextTimer s]"
    using assms(2) upt_add_eq_append [of 0 k "nextTimer s - k"] by simp
  then have split: "[0..<nextTimer s] = [0..<k] @ k # [Suc k..<nextTimer s]"
    using assms(2) by (simp add: upt_conv_Cons)
  have "timers ?s1 k = Some (due, i) \<and> clock ?s1 = clock s + d"
    using fold_runTimer_pending [of k "[0..<k]" ?s0] assms(1) by simp
  then have "analysisCache (runTimer k ?s1) i = None"
    using assms(3) by (simp add: runTimer_def)
  then have "analysisCache (fold runTimer [Suc k..<nextTimer s] (runTimer k ?s1)) i = None"
    by (rule fold_runTimer_absent)
  then show ?thesis by (simp add: elapse_def split)
qed

lemma describe_cases:
  "(\<exists>code msg. describeSkinImage ai uuid req s = (Status code msg, s)) \<or>
   (\<exists>t. describeSkinImage ai uuid req s =
      (Json_analysisId uuid,
       s\<lparr>timers := (timers s)(nextTimer s \<mapsto> (clock s + expiry, uuid)),
         nextTimer := Suc (nextTimer s),
         analysisCache := (analysisCache s)(uuid \<mapsto> \<lparr>description = t, cleanupTimer = nextTimer s\<rparr>)\<rparr>))"
  by (auto simp: describeSkinImage_def setTimeout_def handleAIError_Status
      split: ai_reply.splits option.splits)

lemma unconsulted_session_expires:
  assumes "describeSkinImage ai uuid req s = (Json_analysisId i, s1)" "expiry \<le> d"
  shows "i = uuid \<and> analysisCache s1 uuid \<noteq> None \<and> analysisCache (elapse d s1) uuid = None"
  using describe_cases [of ai uuid req s]
proof (elim disjE exE)
  fix code msg
  assume "describeSkinImage ai uuid req s = (Status code msg, s)"
  with assms(1) show ?thesis by simp
next
  fix t
  let ?s1 = "s\<lparr>timers := (timers s)(nextTimer s \<mapsto> (clock s + expiry, uuid)),
        nextTimer := Suc (nextTimer s),
        analysisCache := (analysisCache s)(uuid \<mapsto> \<lparr>description = t, cleanupTimer = nextTimer s\<rparr>)\<rparr>"
  assume "describeSkinImage ai uuid req s = (Json_analysisId uuid, ?s1)"
  with assms(1) have "(Json_analysisId i, s1) = (Json_analysisId uuid, ?s1)" by (rule trans [OF sym])
  then have i: "i = uuid" and s1: "s1 = ?s1" by blast+
  have "analysisCache (elapse d ?s1) uuid = None"
    by (rule due_timer_evicts [of ?s1 "nextTimer s" "clock s + expiry"])
       (use assms(2) in simp_all)
  with i show ?thesis by (simp add: s1)
qed

end
